theory Spec2Isabelle
  imports Main
begin

section \<open>The controller cache of the HAProxy ingress controller\<close>

text \<open>
  A shallow embedding of \<^verbatim>\<open>pkg/controller/cache.go\<close>: the change lists that
  \<^verbatim>\<open>Notify\<close> fills and \<^verbatim>\<open>SyncNewObjects\<close> empties, the secret name
  resolution, the ACME account key, the ACME token store and the selection of terminating
  pods. Go strings are \<^typ>\<open>string\<close>, Go maps are partial functions, a nil pointer or a
  nil map is \<^term>\<open>None\<close>, and every error return is a value of \<open>error + 'a\<close>.
\<close>

subsection \<open>Strings\<close>

text \<open>\<^verbatim>\<open>strings.Split(s, "/")\<close>: the pieces between the separators, never an empty list.\<close>

fun strings_Split :: "string \<Rightarrow> char \<Rightarrow> string list" where
  "strings_Split [] sep = [[]]"
| "strings_Split (c # cs) sep =
     (if c = sep then [] # strings_Split cs sep
      else (case strings_Split cs sep of
              [] \<Rightarrow> [[c]]
            | p # ps \<Rightarrow> (c # p) # ps))"

text \<open>\<^verbatim>\<open>strings.Join(elems, sep)\<close>.\<close>

fun strings_Join :: "string list \<Rightarrow> string \<Rightarrow> string" where
  "strings_Join [] sep = []"
| "strings_Join [x] sep = x"
| "strings_Join (x # y # ys) sep = x @ sep @ strings_Join (y # ys) sep"

definition strings_Contains :: "string \<Rightarrow> char \<Rightarrow> bool" where
  "strings_Contains s c = (c \<in> set s)"

definition strings_HasPrefix :: "string \<Rightarrow> string \<Rightarrow> bool" where
  "strings_HasPrefix s p = (take (length p) s = p)"

definition strings_TrimPrefix :: "string \<Rightarrow> string \<Rightarrow> string" where
  "strings_TrimPrefix s p = (if strings_HasPrefix s p then drop (length p) s else s)"

subsection \<open>Errors\<close>

text \<open>
  One constructor per error the file builds or passes on. The arguments are the values
  that the source formats into the message.
\<close>

datatype error =
    ErrKeyFormat string
  | ErrNotFound string string
  | ErrCrossNamespace string string
  | ErrSecretNoKey string
  | ErrInvalidPem string
  | ErrParseKey
  | ErrGenerateKey
  | ErrRemote string
  | ErrSelector string
  | ErrLister string

text \<open>
  \<^verbatim>\<open>cache.SplitMetaNamespaceKey\<close> of client-go: one piece is a bare name, two pieces
  are namespace and name, anything else is an error.
\<close>

definition SplitMetaNamespaceKey :: "string \<Rightarrow> error + (string \<times> string)" where
  "SplitMetaNamespaceKey key =
     (case strings_Split key (CHR ''/'') of
        [name] \<Rightarrow> Inr ([], name)
      | [namespace, name] \<Rightarrow> Inr (namespace, name)
      | _ \<Rightarrow> Inl (ErrKeyFormat key))"

subsection \<open>Cluster objects\<close>

record ingress =
  ing_namespace :: string
  ing_name :: string

record service =
  svc_namespace :: string
  svc_name :: string
  svc_selector :: "(string \<times> string) list"

record secret =
  sec_namespace :: string
  sec_name :: string
  sec_type :: string
  sec_data :: "string \<rightharpoonup> string"

record configmap =
  cm_namespace :: string
  cm_name :: string
  cm_data :: "(string \<rightharpoonup> string) option"

record endpoints =
  ep_namespace :: string
  ep_name :: string

record pod =
  pod_namespace :: string
  pod_name :: string
  pod_labels :: "string \<rightharpoonup> string"
  pod_deletionTimestamp :: "nat option"
  pod_reason :: string
  pod_podIP :: string

text \<open>
  The \<^verbatim>\<open>interface{}\<close> arguments of \<^verbatim>\<open>Notify\<close>: the dynamic type is the
  constructor, a nil interface is \<^term>\<open>None\<close> of \<open>obj option\<close>, and \<open>Other\<close> is a
  value of any type the type switches do not name.
\<close>

datatype obj =
    Ingress ingress
  | Service service
  | Secret secret
  | Endpoints endpoints
  | ConfigMap configmap
  | Pod pod
  | Other string

subsection \<open>The cache\<close>

record k8scache =
  crossNS :: bool
  globalConfigMapKey :: string
  tcpConfigMapKey :: string
  acmeSecretKeyName :: string
  acmeTokenConfigmapName :: string
  clear :: bool
  needResync :: bool
  globalConfigMapData :: "(string \<rightharpoonup> string) option"
  tcpConfigMapData :: "(string \<rightharpoonup> string) option"
  newGlobalConfigMapData :: "(string \<rightharpoonup> string) option"
  newTCPConfigMapData :: "(string \<rightharpoonup> string) option"
  delIngresses :: "ingress list"
  updIngresses :: "ingress list"
  addIngresses :: "ingress list"
  newEndpoints :: "endpoints list"
  delServices :: "service list"
  updServices :: "service list"
  addServices :: "service list"
  delSecrets :: "secret list"
  updSecrets :: "secret list"
  addSecrets :: "secret list"
  newPods :: "pod list"

text \<open>The part of the controller configuration that \<^verbatim>\<open>createCache\<close> reads.\<close>

record config =
  AcmeSecretKeyName :: string
  AcmeTokenConfigmapName :: string
  ConfigMapName :: string
  TCPConfigMapName :: string
  AllowCrossNamespace :: bool

text \<open>
  \<^verbatim>\<open>createCache\<close>; \<open>podNamespace\<close> is the value of the environment variable
  \<^verbatim>\<open>POD_NAMESPACE\<close>.
\<close>

definition createCache :: "string \<Rightarrow> config \<Rightarrow> k8scache" where
  "createCache podNamespace cfg =
     (let namespace = (if podNamespace = [] then ''default'' else podNamespace);
          secretKeyName =
            (if \<not> strings_Contains (AcmeSecretKeyName cfg) (CHR ''/'')
             then namespace @ ''/'' @ AcmeSecretKeyName cfg
             else AcmeSecretKeyName cfg);
          tokenConfigmapName =
            (if \<not> strings_Contains (AcmeTokenConfigmapName cfg) (CHR ''/'')
             then namespace @ ''/'' @ AcmeTokenConfigmapName cfg
             else AcmeTokenConfigmapName cfg)
      in \<lparr> crossNS = AllowCrossNamespace cfg,
           globalConfigMapKey = ConfigMapName cfg,
           tcpConfigMapKey = TCPConfigMapName cfg,
           acmeSecretKeyName = secretKeyName,
           acmeTokenConfigmapName = tokenConfigmapName,
           clear = True,
           needResync = False,
           globalConfigMapData = None,
           tcpConfigMapData = None,
           newGlobalConfigMapData = None,
           newTCPConfigMapData = None,
           delIngresses = [], updIngresses = [], addIngresses = [],
           newEndpoints = [],
           delServices = [], updServices = [], addServices = [],
           delSecrets = [], updSecrets = [], addSecrets = [],
           newPods = [] \<rparr>)"

subsection \<open>Secret names\<close>

definition buildSecretName :: "k8scache \<Rightarrow> string \<Rightarrow> string \<Rightarrow> error + (string \<times> string)" where
  "buildSecretName c defaultNamespace secretName =
     (case SplitMetaNamespaceKey secretName of
        Inl err \<Rightarrow> Inl err
      | Inr (ns, name) \<Rightarrow>
          if defaultNamespace = [] then Inr (ns, name)
          else if ns = [] then Inr (defaultNamespace, name)
          else if crossNS c \<or> ns = defaultNamespace then Inr (ns, name)
          else Inl (ErrCrossNamespace secretName defaultNamespace))"

subsection \<open>Change notifications\<close>

text \<open>
  What \<^verbatim>\<open>Notify\<close> does besides updating the cache: the call of the controller's
  \<^verbatim>\<open>DeleteSecret\<close> with the key of a deleted secret, and
  \<^verbatim>\<open>time.AfterFunc(d, func() { c.updateQueue.Notify() })\<close> with the delay \<open>d\<close> in
  milliseconds.
\<close>

datatype effect =
    DeleteSecret string
  | AfterFunc nat

text \<open>The first type switch of \<^verbatim>\<open>Notify\<close>, on \<open>old\<close>.\<close>

definition notifyOld :: "k8scache \<Rightarrow> obj option \<Rightarrow> obj option \<Rightarrow> k8scache \<times> effect list" where
  "notifyOld c old cur =
     (case old of
        None \<Rightarrow> (c, [])
      | Some (Ingress ing) \<Rightarrow>
          if cur = None then (c\<lparr>delIngresses := delIngresses c @ [ing]\<rparr>, []) else (c, [])
      | Some (Service svc) \<Rightarrow>
          if cur = None then (c\<lparr>delServices := delServices c @ [svc]\<rparr>, []) else (c, [])
      | Some (Secret secret) \<Rightarrow>
          if cur = None
          then (c\<lparr>delSecrets := delSecrets c @ [secret]\<rparr>,
                [DeleteSecret (sec_namespace secret @ ''/'' @ sec_name secret)])
          else (c, [])
      | Some _ \<Rightarrow> (c, []))"

text \<open>The second type switch of \<^verbatim>\<open>Notify\<close>, on \<open>cur\<close>.\<close>

definition notifyCur :: "k8scache \<Rightarrow> obj option \<Rightarrow> obj option \<Rightarrow> k8scache" where
  "notifyCur c old cur =
     (case cur of
        None \<Rightarrow> c
      | Some (Ingress ing) \<Rightarrow>
          if old = None then c\<lparr>addIngresses := addIngresses c @ [ing]\<rparr>
          else c\<lparr>updIngresses := updIngresses c @ [ing]\<rparr>
      | Some (Endpoints ep) \<Rightarrow> c\<lparr>newEndpoints := newEndpoints c @ [ep]\<rparr>
      | Some (Service svc) \<Rightarrow>
          if old = None then c\<lparr>addServices := addServices c @ [svc]\<rparr>
          else c\<lparr>updServices := updServices c @ [svc]\<rparr>
      | Some (Secret secret) \<Rightarrow>
          if old = None then c\<lparr>addSecrets := addSecrets c @ [secret]\<rparr>
          else c\<lparr>updSecrets := updSecrets c @ [secret]\<rparr>
      | Some (ConfigMap cm) \<Rightarrow>
          (let key = cm_namespace cm @ ''/'' @ cm_name cm
           in if key = globalConfigMapKey c then c\<lparr>newGlobalConfigMapData := cm_data cm\<rparr>
              else if key = tcpConfigMapKey c then c\<lparr>newTCPConfigMapData := cm_data cm\<rparr>
              else c)
      | Some (Pod p) \<Rightarrow> c\<lparr>newPods := newPods c @ [p]\<rparr>
      | Some (Other _) \<Rightarrow> c)"

definition Notify :: "k8scache \<Rightarrow> obj option \<Rightarrow> obj option \<Rightarrow> k8scache \<times> effect list" where
  "Notify c old cur =
     (let c1 = (if old = None \<and> cur = None then c\<lparr>needResync := True\<rparr> else c);
          (c2, deleted) = notifyOld c1 old cur;
          c3 = notifyCur c2 old cur;
          armed = (if clear c3 then [AfterFunc 500] else [])
      in (c3\<lparr>clear := False\<rparr>, deleted @ armed))"

text \<open>A sequence of notifications, in order, with the effects of all of them.\<close>

fun NotifyAll :: "k8scache \<Rightarrow> (obj option \<times> obj option) list \<Rightarrow> k8scache \<times> effect list" where
  "NotifyAll c [] = (c, [])"
| "NotifyAll c ((old, cur) # evs) =
     (let (c', effs) = Notify c old cur;
          (c'', effs') = NotifyAll c' evs
      in (c'', effs @ effs'))"

text \<open>
  Notifications that arrive at the given times (in milliseconds): the times at which the
  timers they arm call \<^verbatim>\<open>updateQueue.Notify\<close>, each timer once.
\<close>

fun timerDeadlines :: "nat \<Rightarrow> effect list \<Rightarrow> nat list" where
  "timerDeadlines now [] = []"
| "timerDeadlines now (AfterFunc d # effs) = (now + d) # timerDeadlines now effs"
| "timerDeadlines now (DeleteSecret k # effs) = timerDeadlines now effs"

fun queueNotifyTimes :: "k8scache \<Rightarrow> (nat \<times> obj option \<times> obj option) list \<Rightarrow> nat list" where
  "queueNotifyTimes c [] = []"
| "queueNotifyTimes c ((now, old, cur) # evs) =
     timerDeadlines now (snd (Notify c old cur)) @ queueNotifyTimes (fst (Notify c old cur)) evs"

subsection \<open>Reading and resetting the change lists\<close>

definition NeedResync :: "k8scache \<Rightarrow> bool" where
  "NeedResync c = needResync c"

definition GlobalConfig :: "k8scache \<Rightarrow> (string \<rightharpoonup> string) option \<times> (string \<rightharpoonup> string) option" where
  "GlobalConfig c = (globalConfigMapData c, newGlobalConfigMapData c)"

definition GetDirtyIngresses :: "k8scache \<Rightarrow> ingress list \<times> ingress list \<times> ingress list" where
  "GetDirtyIngresses c = (delIngresses c, updIngresses c, addIngresses c)"

definition GetDirtyEndpoints :: "k8scache \<Rightarrow> endpoints list" where
  "GetDirtyEndpoints c = newEndpoints c"

definition GetDirtyServices :: "k8scache \<Rightarrow> service list \<times> service list \<times> service list" where
  "GetDirtyServices c = (delServices c, updServices c, addServices c)"

definition GetDirtySecrets :: "k8scache \<Rightarrow> secret list \<times> secret list \<times> secret list" where
  "GetDirtySecrets c = (delSecrets c, updSecrets c, addSecrets c)"

definition GetDirtyPods :: "k8scache \<Rightarrow> pod list" where
  "GetDirtyPods c = newPods c"

definition SyncNewObjects :: "k8scache \<Rightarrow> k8scache" where
  "SyncNewObjects c =
     (let c1 = c\<lparr>newPods := [], newEndpoints := [],
                 delSecrets := [], updSecrets := [], addSecrets := [],
                 delIngresses := [], updIngresses := [], addIngresses := []\<rparr>;
          c2 = (if newGlobalConfigMapData c1 \<noteq> None
                then c1\<lparr>globalConfigMapData := newGlobalConfigMapData c1,
                        newGlobalConfigMapData := None\<rparr>
                else c1);
          c3 = (if newTCPConfigMapData c2 \<noteq> None
                then c2\<lparr>tcpConfigMapData := newTCPConfigMapData c2,
                        newTCPConfigMapData := None\<rparr>
                else c2)
      in c3\<lparr>clear := True, needResync := False\<rparr>)"

subsection \<open>The local mirror and the remote store\<close>

text \<open>
  Modelled from the spec: the type \<^verbatim>\<open>listers\<close> of the repository is not under
  \<^verbatim>\<open>src/\<close>. The spec's Resource Watch Layer "maintains local mirrors of cluster
  objects" and "answers get/list queries"; the mirror is a map from (namespace, name) to the
  mirrored object, and the list of mirrored pods. A \<^verbatim>\<open>Get\<close> of a lister returns the
  pointer held by the mirror, so a write through that pointer is a write to the mirror.
\<close>

record cluster =
  secretLister :: "string \<times> string \<rightharpoonup> secret"
  configMapLister :: "string \<times> string \<rightharpoonup> configmap"
  podLister :: "pod list"

text \<open>
  The calls that the file makes on \<^verbatim>\<open>c.client\<close>, the remote store. What the store
  answers is a parameter \<open>cli\<close> of the operations: \<^term>\<open>None\<close> for success or the
  error. A call changes the remote store and not the mirror, which only the watch layer
  updates.
\<close>

datatype apicall =
    CreateSecret secret
  | UpdateSecret secret
  | CreateConfigMap configmap
  | UpdateConfigMap configmap

definition GetSecret :: "cluster \<Rightarrow> string \<Rightarrow> error + secret" where
  "GetSecret cl secretName =
     (case SplitMetaNamespaceKey secretName of
        Inl err \<Rightarrow> Inl err
      | Inr (namespace, name) \<Rightarrow>
          (case secretLister cl (namespace, name) of
             None \<Rightarrow> Inl (ErrNotFound namespace name)
           | Some secret \<Rightarrow> Inr secret))"

definition GetConfigMap :: "cluster \<Rightarrow> string \<Rightarrow> error + configmap" where
  "GetConfigMap cl configMapName =
     (case SplitMetaNamespaceKey configMapName of
        Inl err \<Rightarrow> Inl err
      | Inr (namespace, name) \<Rightarrow>
          (case configMapLister cl (namespace, name) of
             None \<Rightarrow> Inl (ErrNotFound namespace name)
           | Some cm \<Rightarrow> Inr cm))"

text \<open>
  \<^verbatim>\<open>CreateOrUpdateSecret\<close> and \<^verbatim>\<open>CreateOrUpdateConfigMap\<close>. The
  \<^verbatim>\<open>err\<close> that \<^verbatim>\<open>if _, err := ...Get(...); err != nil\<close> declares lives
  in the \<^verbatim>\<open>if\<close> statement and hides the named result \<^verbatim>\<open>err\<close> of the
  function. Both branches assign the answer of the store to that inner variable,
  \<open>shadowed\<close> here, and \<^verbatim>\<open>return err\<close> returns the named result, which nothing
  has assigned: nil.
\<close>

definition CreateOrUpdateSecret ::
  "(apicall \<Rightarrow> error option) \<Rightarrow> cluster \<Rightarrow> secret \<Rightarrow> error option \<times> apicall list" where
  "CreateOrUpdateSecret cli cl secret =
     (let err = None
      in case secretLister cl (sec_namespace secret, sec_name secret) of
           None \<Rightarrow> (let shadowed = cli (CreateSecret secret) in (err, [CreateSecret secret]))
         | Some _ \<Rightarrow> (let shadowed = cli (UpdateSecret secret) in (err, [UpdateSecret secret])))"

definition CreateOrUpdateConfigMap ::
  "(apicall \<Rightarrow> error option) \<Rightarrow> cluster \<Rightarrow> configmap \<Rightarrow> error option \<times> apicall list" where
  "CreateOrUpdateConfigMap cli cl cm =
     (let err = None
      in case configMapLister cl (cm_namespace cm, cm_name cm) of
           None \<Rightarrow> (let shadowed = cli (CreateConfigMap cm) in (err, [CreateConfigMap cm]))
         | Some _ \<Rightarrow> (let shadowed = cli (UpdateConfigMap cm) in (err, [UpdateConfigMap cm])))"

subsection \<open>Keys and certificates\<close>

definition TLSCertKey :: string where
  "TLSCertKey = ''tls.crt''"

definition TLSPrivateKeyKey :: string where
  "TLSPrivateKeyKey = ''tls.key''"

record pem_block =
  block_type :: string
  block_bytes :: string

text \<open>
  The functions of Go's \<^verbatim>\<open>encoding/pem\<close>, \<^verbatim>\<open>crypto/x509\<close> and
  \<^verbatim>\<open>crypto/rsa\<close> that the file calls, as parameters: \<^term>\<open>None\<close> is the nil block
  of \<^verbatim>\<open>pem.Decode\<close> or the error of a parser or of the key generator;
  \<open>generateKey\<close> takes the number of bits.
\<close>

record ('key, 'cert) cryptolib =
  pemDecode :: "string \<Rightarrow> pem_block option"
  pemEncodeToMemory :: "pem_block \<Rightarrow> string"
  parseCertificate :: "string \<Rightarrow> 'cert option"
  parsePKCS1PrivateKey :: "string \<Rightarrow> 'key option"
  marshalPKCS1PrivateKey :: "'key \<Rightarrow> string"
  generateKey :: "nat \<Rightarrow> 'key option"

text \<open>
  \<^verbatim>\<open>GetKey\<close>. In the source the block under \<^verbatim>\<open>if key == nil\<close> runs exactly
  when \<^verbatim>\<open>GetSecret\<close> failed: the other paths have returned or have parsed a key.
\<close>

definition GetKey ::
  "('key, 'cert) cryptolib \<Rightarrow> (apicall \<Rightarrow> error option) \<Rightarrow> k8scache \<Rightarrow> cluster
     \<Rightarrow> (error + 'key) \<times> apicall list" where
  "GetKey lib cli c cl =
     (case GetSecret cl (acmeSecretKeyName c) of
        Inr secret \<Rightarrow>
          (case sec_data secret TLSPrivateKeyKey of
             None \<Rightarrow> (Inl (ErrSecretNoKey (acmeSecretKeyName c)), [])
           | Some pemKey \<Rightarrow>
               (case pemDecode lib pemKey of
                  None \<Rightarrow> (Inl (ErrInvalidPem (acmeSecretKeyName c)), [])
                | Some derBlock \<Rightarrow>
                    (case parsePKCS1PrivateKey lib (block_bytes derBlock) of
                       None \<Rightarrow> (Inl ErrParseKey, [])
                     | Some key \<Rightarrow> (Inr key, []))))
      | Inl _ \<Rightarrow>
          (case SplitMetaNamespaceKey (acmeSecretKeyName c) of
             Inl err \<Rightarrow> (Inl err, [])
           | Inr (namespace, name) \<Rightarrow>
               (case generateKey lib 2048 of
                  None \<Rightarrow> (Inl ErrGenerateKey, [])
                | Some key \<Rightarrow>
                    (let pemEncode = pemEncodeToMemory lib
                           \<lparr>block_type = ''RSA PRIVATE KEY'',
                            block_bytes = marshalPKCS1PrivateKey lib key\<rparr>;
                         newSecret = \<lparr>sec_namespace = namespace, sec_name = name,
                            sec_type = [], sec_data = [TLSPrivateKeyKey \<mapsto> pemEncode]\<rparr>;
                         (err, calls) = CreateOrUpdateSecret cli cl newSecret
                     in (case err of
                           Some e \<Rightarrow> (Inl e, calls)
                         | None \<Rightarrow> (Inr key, calls))))))"

record ('key, 'cert) TLSSecret =
  Crt :: 'cert
  Key :: 'key

definition GetTLSSecretContent ::
  "('key, 'cert) cryptolib \<Rightarrow> cluster \<Rightarrow> string \<Rightarrow> ('key, 'cert) TLSSecret option" where
  "GetTLSSecretContent lib cl secretName =
     (case GetSecret cl secretName of
        Inl _ \<Rightarrow> None
      | Inr secret \<Rightarrow>
          (case (sec_data secret TLSCertKey, sec_data secret TLSPrivateKeyKey) of
             (Some pemCrt, Some pemKey) \<Rightarrow>
               (case (pemDecode lib pemCrt, pemDecode lib pemKey) of
                  (Some derCrt, Some derKey) \<Rightarrow>
                    (case (parseCertificate lib (block_bytes derCrt),
                           parsePKCS1PrivateKey lib (block_bytes derKey)) of
                       (Some crt, Some key) \<Rightarrow> Some \<lparr>Crt = crt, Key = key\<rparr>
                     | _ \<Rightarrow> None)
                | _ \<Rightarrow> None)
           | _ \<Rightarrow> None))"

subsection \<open>The ACME token store\<close>

text \<open>A read of a Go map that may be nil: a nil map has no entry.\<close>

definition dataLookup :: "(string \<rightharpoonup> string) option \<Rightarrow> string \<Rightarrow> string option" where
  "dataLookup d k = (case d of None \<Rightarrow> None | Some m \<Rightarrow> m k)"

definition GetToken :: "k8scache \<Rightarrow> cluster \<Rightarrow> string \<Rightarrow> string \<Rightarrow> string" where
  "GetToken c cl domain uri =
     (case GetConfigMap cl (acmeTokenConfigmapName c) of
        Inl _ \<Rightarrow> []
      | Inr config \<Rightarrow>
          (case dataLookup (cm_data config) domain of
             None \<Rightarrow> []
           | Some data \<Rightarrow>
               (let prefix = uri @ ''=''
                in if \<not> strings_HasPrefix data prefix then []
                   else strings_TrimPrefix data prefix)))"

text \<open>
  \<^verbatim>\<open>SetToken\<close>. When the lister has the object, \<open>config\<close> is the mirror's own
  object and the assignments to \<^verbatim>\<open>config.Data\<close> change the mirror; otherwise
  \<open>config\<close> is a new object that only the remote call carries.
\<close>

definition SetToken ::
  "(apicall \<Rightarrow> error option) \<Rightarrow> k8scache \<Rightarrow> cluster \<Rightarrow> string \<Rightarrow> string \<Rightarrow> string
     \<Rightarrow> error option \<times> cluster \<times> apicall list" where
  "SetToken cli c cl domain uri token =
     (case SplitMetaNamespaceKey (acmeTokenConfigmapName c) of
        Inl err \<Rightarrow> (Some err, cl, [])
      | Inr (namespace, name) \<Rightarrow>
          (let mirrored = configMapLister cl (namespace, name);
               config = (case mirrored of
                           None \<Rightarrow> \<lparr>cm_namespace = namespace, cm_name = name, cm_data = None\<rparr>
                         | Some cm \<Rightarrow> cm);
               data = (case cm_data config of None \<Rightarrow> Map.empty | Some m \<Rightarrow> m);
               data' = (if token \<noteq> [] then data(domain \<mapsto> uri @ ''='' @ token)
                        else data(domain := None));
               config' = config\<lparr>cm_data := Some data'\<rparr>;
               cl' = (case mirrored of
                        None \<Rightarrow> cl
                      | Some _ \<Rightarrow>
                          cl\<lparr>configMapLister := (configMapLister cl)((namespace, name) \<mapsto> config')\<rparr>);
               (err, calls) = CreateOrUpdateConfigMap cli cl' config'
           in (err, cl', calls)))"

subsection \<open>Terminating pods\<close>

text \<open>The loop of \<^verbatim>\<open>isTerminatingPod\<close> over the selector of the service.\<close>

fun selectorMatches :: "(string \<times> string) list \<Rightarrow> (string \<rightharpoonup> string) \<Rightarrow> bool" where
  "selectorMatches [] labels = True"
| "selectorMatches ((selectorLabel, selectorValue) # sel) labels =
     (case labels selectorLabel of
        None \<Rightarrow> False
      | Some labelValue \<Rightarrow>
          if selectorValue \<noteq> labelValue then False else selectorMatches sel labels)"

definition isTerminatingPod :: "service \<Rightarrow> pod \<Rightarrow> bool" where
  "isTerminatingPod svc p =
     (if svc_namespace svc \<noteq> pod_namespace p then False
      else if \<not> selectorMatches (svc_selector svc) (pod_labels p) then False
      else if pod_deletionTimestamp p \<noteq> None \<and> pod_reason p \<noteq> ''NodeLost'' \<and> pod_podIP p \<noteq> []
      then True
      else False)"

text \<open>
  \<^verbatim>\<open>podLister.Pods(namespace).List(selector)\<close>: the mirrored pods of the namespace
  that the selector matches. A selector of \<^verbatim>\<open>k8s.io/apimachinery/pkg/labels\<close> is
  modelled by its method \<^verbatim>\<open>Matches\<close>.
\<close>

definition podLister_List ::
  "cluster \<Rightarrow> string \<Rightarrow> ((string \<rightharpoonup> string) \<Rightarrow> bool) \<Rightarrow> error + pod list" where
  "podLister_List cl namespace selector =
     Inr (filter (\<lambda>p. pod_namespace p = namespace \<and> selector (pod_labels p)) (podLister cl))"

text \<open>
  \<^verbatim>\<open>GetTerminatingPods\<close>; \<open>labelsParse\<close> is \<^verbatim>\<open>labels.Parse\<close>, a parameter.
  The selector of the service is an association list in the order in which the
  \<^verbatim>\<open>range\<close> loop visits the map.
\<close>

definition GetTerminatingPods ::
  "(string \<Rightarrow> error + ((string \<rightharpoonup> string) \<Rightarrow> bool)) \<Rightarrow> cluster \<Rightarrow> service
     \<Rightarrow> error + pod list" where
  "GetTerminatingPods labelsParse cl svc =
     (let ls = map (\<lambda>(k, v). k @ ''='' @ v) (svc_selector svc)
      in case labelsParse (strings_Join ls '','') of
           Inl err \<Rightarrow> Inl err
         | Inr l \<Rightarrow>
             (case podLister_List cl (svc_namespace svc) l of
                Inl err \<Rightarrow> Inl err
              | Inr list \<Rightarrow> Inr (filter (isTerminatingPod svc) list)))"

subsection \<open>Example objects\<close>

definition exampleConfig :: config where
  "exampleConfig = \<lparr>AcmeSecretKeyName = ''acme-key'', AcmeTokenConfigmapName = ''acme-tokens'',
     ConfigMapName = ''ingress/haproxy'', TCPConfigMapName = ''ingress/tcp'',
     AllowCrossNamespace = False\<rparr>"

definition exampleIngress :: ingress where
  "exampleIngress = \<lparr>ing_namespace = ''default'', ing_name = ''web''\<rparr>"

definition exampleService :: service where
  "exampleService = \<lparr>svc_namespace = ''default'', svc_name = ''web'',
     svc_selector = [(''app'', ''web'')]\<rparr>"

definition exampleSecret :: secret where
  "exampleSecret = \<lparr>sec_namespace = ''default'', sec_name = ''web-tls'',
     sec_type = ''kubernetes.io/tls'', sec_data = Map.empty\<rparr>"

definition examplePod :: pod where
  "examplePod = \<lparr>pod_namespace = ''default'', pod_name = ''web-1'',
     pod_labels = [''app'' \<mapsto> ''web''], pod_deletionTimestamp = Some 1000,
     pod_reason = [], pod_podIP = ''10.0.0.7''\<rparr>"

text \<open>
  A stand-in for the library functions, with strings for keys and certificates: a PEM
  text is \<open>PEM:\<close> followed by the bytes of the block, the encoding of a key is
  \<open>key:\<close> followed by the key, that of a certificate \<open>crt:\<close> followed by the
  certificate, and the generator returns one fixed key.
\<close>

definition exampleCrypto :: "(string, string) cryptolib" where
  "exampleCrypto =
     \<lparr>pemDecode = (\<lambda>s. if strings_HasPrefix s ''PEM:''
                        then Some \<lparr>block_type = ''RSA PRIVATE KEY'', block_bytes = drop 4 s\<rparr>
                        else None),
      pemEncodeToMemory = (\<lambda>b. ''PEM:'' @ block_bytes b),
      parseCertificate = (\<lambda>d. if strings_HasPrefix d ''crt:'' then Some (drop 4 d) else None),
      parsePKCS1PrivateKey = (\<lambda>d. if strings_HasPrefix d ''key:'' then Some (drop 4 d) else None),
      marshalPKCS1PrivateKey = (\<lambda>k. ''key:'' @ k),
      generateKey = (\<lambda>bits. if bits = 2048 then Some ''fresh'' else None)\<rparr>"

text \<open>
  Mirrors: an empty one, one that holds the ACME key secret with the given data, one that
  holds the ACME token config map with the given data, and one that holds six pods.
\<close>

definition emptyCluster :: cluster where
  "emptyCluster = \<lparr>secretLister = Map.empty, configMapLister = Map.empty, podLister = []\<rparr>"

definition secretCluster :: "(string \<rightharpoonup> string) \<Rightarrow> cluster" where
  "secretCluster d =
     \<lparr>secretLister = [(''default'', ''acme-key'') \<mapsto>
          \<lparr>sec_namespace = ''default'', sec_name = ''acme-key'', sec_type = [], sec_data = d\<rparr>],
      configMapLister = Map.empty, podLister = []\<rparr>"

definition tokenCluster :: "(string \<rightharpoonup> string) option \<Rightarrow> cluster" where
  "tokenCluster d =
     \<lparr>secretLister = Map.empty,
      configMapLister = [(''default'', ''acme-tokens'') \<mapsto>
          \<lparr>cm_namespace = ''default'', cm_name = ''acme-tokens'', cm_data = d\<rparr>],
      podLister = []\<rparr>"

text \<open>
  A stand-in for \<^verbatim>\<open>labels.Parse\<close> that knows the empty selector and the selector
  of \<open>exampleService\<close>.
\<close>

definition exampleParse :: "string \<Rightarrow> error + ((string \<rightharpoonup> string) \<Rightarrow> bool)" where
  "exampleParse s =
     (if s = [] then Inr (\<lambda>labels. True)
      else if s = ''app=web'' then Inr (\<lambda>labels. labels ''app'' = Some ''web'')
      else Inl (ErrSelector s))"

definition podCluster :: cluster where
  "podCluster =
     \<lparr>secretLister = Map.empty, configMapLister = Map.empty,
      podLister =
        [examplePod,
         examplePod\<lparr>pod_name := ''web-2'', pod_reason := ''NodeLost''\<rparr>,
         examplePod\<lparr>pod_name := ''web-3'', pod_deletionTimestamp := None\<rparr>,
         examplePod\<lparr>pod_name := ''web-4'', pod_podIP := []\<rparr>,
         examplePod\<lparr>pod_name := ''db-1'', pod_labels := [''app'' \<mapsto> ''db'']\<rparr>,
         examplePod\<lparr>pod_namespace := ''other''\<rparr>]\<rparr>"

section \<open>Properties\<close>

subsection \<open>Splitting keys\<close>

lemma strings_Split_no_sep: "sep \<notin> set s \<Longrightarrow> strings_Split s sep = [s]"
  by (induction s) auto

lemma strings_Split_append:
  "sep \<notin> set a \<Longrightarrow> strings_Split (a @ sep # b) sep = a # strings_Split b sep"
  by (induction a) auto

lemma SplitMetaNamespaceKey_bare:
  "CHR ''/'' \<notin> set name \<Longrightarrow> SplitMetaNamespaceKey name = Inr ([], name)"
  by (simp add: SplitMetaNamespaceKey_def strings_Split_no_sep)

lemma SplitMetaNamespaceKey_namespaced:
  "CHR ''/'' \<notin> set ns \<Longrightarrow> CHR ''/'' \<notin> set name \<Longrightarrow>
   SplitMetaNamespaceKey (ns @ ''/'' @ name) = Inr (ns, name)"
  by (simp add: SplitMetaNamespaceKey_def strings_Split_append strings_Split_no_sep)

lemma createCache_fields:
  "crossNS (createCache ns cfg) = AllowCrossNamespace cfg"
  "globalConfigMapKey (createCache ns cfg) = ConfigMapName cfg"
  "tcpConfigMapKey (createCache ns cfg) = TCPConfigMapName cfg"
  "clear (createCache ns cfg) = True"
  "needResync (createCache ns cfg) = False"
  "delIngresses (createCache ns cfg) = []"
  "updIngresses (createCache ns cfg) = []"
  "addIngresses (createCache ns cfg) = []"
  "newEndpoints (createCache ns cfg) = []"
  "delServices (createCache ns cfg) = []"
  "updServices (createCache ns cfg) = []"
  "addServices (createCache ns cfg) = []"
  "delSecrets (createCache ns cfg) = []"
  "updSecrets (createCache ns cfg) = []"
  "addSecrets (createCache ns cfg) = []"
  "newPods (createCache ns cfg) = []"
  by (simp_all add: createCache_def Let_def)

subsection \<open>Secret names\<close>

text \<open>
  C9: with an empty default namespace \<^verbatim>\<open>buildSecretName\<close> returns what the reference
  parses to and never looks at the cross-namespace flag: its result is the result of
  \<^verbatim>\<open>SplitMetaNamespaceKey\<close> for every cache. So a reference \<open>ns/name\<close> gives
  \<open>(ns, name)\<close> also when cross-namespace reading is disabled, and a bare reference
  gives the empty namespace.
\<close>

theorem buildSecretName_empty_default:
  "buildSecretName c [] ref = SplitMetaNamespaceKey ref
   \<and> (CHR ''/'' \<notin> set ns \<and> CHR ''/'' \<notin> set name \<longrightarrow>
        buildSecretName c [] (ns @ ''/'' @ name) = Inr (ns, name))
   \<and> (CHR ''/'' \<notin> set ref \<longrightarrow> buildSecretName c [] ref = Inr ([], ref))"
  by (auto simp: buildSecretName_def SplitMetaNamespaceKey_bare SplitMetaNamespaceKey_namespaced
        simp del: append.simps split: sum.splits)

text \<open>A cache with cross-namespace reading disabled, a namespaced and a bare reference.\<close>

theorem buildSecretName_empty_default_witness:
  "buildSecretName (createCache [] exampleConfig) [] ''b/secret1'' = Inr (''b'', ''secret1'')
   \<and> buildSecretName (createCache [] exampleConfig) [] ''secret1'' = Inr ([], ''secret1'')
   \<and> \<not> crossNS (createCache [] exampleConfig)"
  using buildSecretName_empty_default
    [of "createCache [] exampleConfig" "''secret1''" "''b''" "''secret1''"]
  by (simp add: createCache_fields exampleConfig_def SplitMetaNamespaceKey_def)

text \<open>
  C5, as amended: for a non-empty default namespace and a reference that parses to a
  non-empty namespace other than the default, \<^verbatim>\<open>buildSecretName\<close> fails with the
  cross-namespace error when cross-namespace reading is disabled and returns the parsed
  pair when it is enabled. With the default \<open>a\<close> and the reference \<open>b/secret1\<close> it fails
  when disabled and returns \<open>(b, secret1)\<close> when enabled.
\<close>

theorem buildSecretName_cross_namespace:
  "(defaultNamespace \<noteq> [] \<and> SplitMetaNamespaceKey ref = Inr (ns, name) \<and> ns \<noteq> []
      \<and> ns \<noteq> defaultNamespace \<longrightarrow>
      buildSecretName c defaultNamespace ref =
        (if crossNS c then Inr (ns, name) else Inl (ErrCrossNamespace ref defaultNamespace)))
   \<and> (\<not> crossNS c \<longrightarrow>
        buildSecretName c ''a'' ''b/secret1'' = Inl (ErrCrossNamespace ''b/secret1'' ''a''))
   \<and> (crossNS c \<longrightarrow> buildSecretName c ''a'' ''b/secret1'' = Inr (''b'', ''secret1''))"
  by (simp add: buildSecretName_def SplitMetaNamespaceKey_def)

theorem buildSecretName_cross_namespace_witness:
  "buildSecretName (createCache [] exampleConfig) ''prod'' ''b/secret1''
     = Inl (ErrCrossNamespace ''b/secret1'' ''prod'')
   \<and> buildSecretName ((createCache [] exampleConfig)\<lparr>crossNS := True\<rparr>) ''prod'' ''b/secret1''
     = Inr (''b'', ''secret1'')
   \<and> buildSecretName (createCache [] exampleConfig) ''a'' ''b/secret1''
     = Inl (ErrCrossNamespace ''b/secret1'' ''a'')
   \<and> buildSecretName ((createCache [] exampleConfig)\<lparr>crossNS := True\<rparr>) ''a'' ''b/secret1''
     = Inr (''b'', ''secret1'')"
  using buildSecretName_cross_namespace
      [of "''prod''" "''b/secret1''" "''b''" "''secret1''" "createCache [] exampleConfig"]
    buildSecretName_cross_namespace
      [of "''prod''" "''b/secret1''" "''b''" "''secret1''"
          "(createCache [] exampleConfig)\<lparr>crossNS := True\<rparr>"]
  by (simp add: createCache_fields exampleConfig_def SplitMetaNamespaceKey_def)

text \<open>
  C5 as stated, for every default namespace, fails at the empty one: the namespace \<open>b\<close>
  of the reference differs from the default, cross-namespace reading is disabled, and the
  call succeeds.
\<close>

theorem buildSecretName_cross_namespace_counterexample:
  "\<not> crossNS (createCache [] exampleConfig)
   \<and> buildSecretName (createCache [] exampleConfig) [] ''b/secret1'' = Inr (''b'', ''secret1'')"
  by (simp add: buildSecretName_def SplitMetaNamespaceKey_def createCache_fields exampleConfig_def)

subsection \<open>Resetting the change lists\<close>

lemma SyncNewObjects_service_fields:
  "delServices (SyncNewObjects c) = delServices c"
  "updServices (SyncNewObjects c) = updServices c"
  "addServices (SyncNewObjects c) = addServices c"
  by (simp_all add: SyncNewObjects_def Let_def)

text \<open>What \<^verbatim>\<open>SyncNewObjects\<close> resets, and the lists it leaves as they are.\<close>

lemma SyncNewObjects_clears:
  "GetDirtyIngresses (SyncNewObjects c) = ([], [], [])"
  "GetDirtySecrets (SyncNewObjects c) = ([], [], [])"
  "GetDirtyEndpoints (SyncNewObjects c) = []"
  "GetDirtyPods (SyncNewObjects c) = []"
  "NeedResync (SyncNewObjects c) = False"
  "clear (SyncNewObjects c) = True"
  by (simp_all add: GetDirtyIngresses_def GetDirtySecrets_def GetDirtyEndpoints_def
       GetDirtyPods_def NeedResync_def SyncNewObjects_def Let_def)

lemma SyncNewObjects_promotes:
  "globalConfigMapData (SyncNewObjects c) =
     (case newGlobalConfigMapData c of None \<Rightarrow> globalConfigMapData c | Some d \<Rightarrow> Some d)"
  "newGlobalConfigMapData (SyncNewObjects c) = None"
  "tcpConfigMapData (SyncNewObjects c) =
     (case newTCPConfigMapData c of None \<Rightarrow> tcpConfigMapData c | Some d \<Rightarrow> Some d)"
  "newTCPConfigMapData (SyncNewObjects c) = None"
  by (auto simp: SyncNewObjects_def Let_def split: option.split)

lemma SyncNewObjects_services:
  "GetDirtyServices (SyncNewObjects c) = GetDirtyServices c"
  by (simp add: GetDirtyServices_def SyncNewObjects_service_fields)

lemma Notify_add_service:
  "addServices (fst (Notify c None (Some (Service svc)))) = addServices c @ [svc]"
  "delServices (fst (Notify c None (Some (Service svc)))) = delServices c"
  "updServices (fst (Notify c None (Some (Service svc)))) = updServices c"
  by (simp_all add: Notify_def notifyOld_def notifyCur_def Let_def)

text \<open>
  C1: after \<^verbatim>\<open>SyncNewObjects\<close> every dirty list is empty. The code resets the
  lists of pods, endpoints, secrets and ingresses and not the three lists of services: a
  service added before the call is still returned by \<^verbatim>\<open>GetDirtyServices\<close> after
  it, and after a second call with no notification in between.
\<close>

theorem SyncNewObjects_keeps_services:
  "GetDirtyServices (SyncNewObjects
      (fst (Notify (createCache [] exampleConfig) None (Some (Service exampleService)))))
     = ([], [], [exampleService])
   \<and> GetDirtyServices (SyncNewObjects (SyncNewObjects
      (fst (Notify (createCache [] exampleConfig) None (Some (Service exampleService))))))
     = ([], [], [exampleService])"
  by (simp add: SyncNewObjects_service_fields GetDirtyServices_def Notify_add_service
        createCache_fields)

subsection \<open>The notification timer\<close>

lemma notifyOld_clear: "clear (fst (notifyOld c old cur)) = clear c"
  by (simp add: notifyOld_def split: option.split obj.split)

lemma notifyCur_clear: "clear (notifyCur c old cur) = clear c"
  by (simp add: notifyCur_def Let_def split: option.split obj.split)

lemma Notify_clear: "clear (fst (Notify c old cur)) = False"
  by (simp add: Notify_def Let_def split: prod.split)

lemma timerDeadlines_append:
  "timerDeadlines now (xs @ ys) = timerDeadlines now xs @ timerDeadlines now ys"
  by (induction now xs rule: timerDeadlines.induct) auto

lemma timerDeadlines_notifyOld: "timerDeadlines now (snd (notifyOld c old cur)) = []"
  by (simp add: notifyOld_def split: option.split obj.split)

text \<open>A notification arms a timer exactly when the flag \<open>clear\<close> is set.\<close>

lemma timerDeadlines_Notify:
  "timerDeadlines now (snd (Notify c old cur)) = (if clear c then [now + 500] else [])"
proof -
  let ?c1 = "if old = None \<and> cur = None then c\<lparr>needResync := True\<rparr> else c"
  obtain c2 deleted where old: "notifyOld ?c1 old cur = (c2, deleted)"
    by (cases "notifyOld ?c1 old cur")
  have "clear c2 = clear c"
    using notifyOld_clear [of ?c1 old cur] old by (simp split: if_splits)
  moreover have "timerDeadlines now deleted = []"
    using timerDeadlines_notifyOld [of now ?c1 old cur] old by simp
  ultimately show ?thesis
    using old by (simp add: Notify_def Let_def timerDeadlines_append notifyCur_clear)
qed

lemma queueNotifyTimes_not_clear: "\<not> clear c \<Longrightarrow> queueNotifyTimes c evs = []"
proof (induction evs arbitrary: c)
  case Nil
  then show ?case by simp
next
  case (Cons ev evs)
  obtain now old cur where ev: "ev = (now, old, cur)" by (cases ev)
  show ?case
    using Cons.prems Cons.IH [of "fst (Notify c old cur)"]
    by (simp add: ev timerDeadlines_Notify Notify_clear)
qed

text \<open>
  C2, as amended: from a cache whose flag \<open>clear\<close> is set (a new cache, or one after
  \<^verbatim>\<open>SyncNewObjects\<close>), any sequence of notifications with no sync in between
  arms one timer, at the first notification, so \<^verbatim>\<open>updateQueue.Notify\<close> is called
  once, 500 ms after the first notification; while the flag is not set no notification
  arms a timer.
\<close>

theorem queueNotifyTimes_once:
  "(clear c \<longrightarrow> queueNotifyTimes c ((now, old, cur) # evs) = [now + 500])
   \<and> (\<not> clear c \<longrightarrow> queueNotifyTimes c evs = [])"
  by (simp add: timerDeadlines_Notify queueNotifyTimes_not_clear Notify_clear)

theorem queueNotifyTimes_once_witness:
  "queueNotifyTimes (createCache [] exampleConfig)
     [(0, None, Some (Ingress exampleIngress)), (100, None, Some (Service exampleService)),
      (490, Some (Ingress exampleIngress), None)] = [500]
   \<and> queueNotifyTimes (fst (Notify (createCache [] exampleConfig) None None))
     [(100, None, Some (Service exampleService))] = []"
  using queueNotifyTimes_once
      [of "createCache [] exampleConfig" 0 None "Some (Ingress exampleIngress)"
        "[(100, None, Some (Service exampleService)), (490, Some (Ingress exampleIngress), None)]"]
    queueNotifyTimes_once
      [of "fst (Notify (createCache [] exampleConfig) None None)" 0 None None
        "[(100, None, Some (Service exampleService))]"]
  by (simp add: createCache_fields Notify_clear)

text \<open>
  C2 as stated fails: with notifications at 0, 100 and 490 ms the one call of
  \<^verbatim>\<open>updateQueue.Notify\<close> is due at 500 ms, not at 990 ms.
\<close>

theorem queueNotifyTimes_counterexample:
  "queueNotifyTimes (createCache [] exampleConfig)
     [(0, None, Some (Ingress exampleIngress)), (100, None, Some (Service exampleService)),
      (490, Some (Ingress exampleIngress), None)] = [500]
   \<and> queueNotifyTimes (createCache [] exampleConfig)
     [(0, None, Some (Ingress exampleIngress)), (100, None, Some (Service exampleService)),
      (490, Some (Ingress exampleIngress), None)] \<noteq> [990]"
  by (simp add: timerDeadlines_Notify queueNotifyTimes_not_clear Notify_clear createCache_fields)

subsection \<open>Classification of the notifications\<close>

lemma NotifyAll_Cons:
  "fst (NotifyAll c ((old, cur) # evs)) = fst (NotifyAll (fst (Notify c old cur)) evs)"
  "snd (NotifyAll c ((old, cur) # evs)) =
     snd (Notify c old cur) @ snd (NotifyAll (fst (Notify c old cur)) evs)"
  by (simp_all add: Let_def split: prod.split)

text \<open>A list that every notification extends is extended by a sequence of them, in order.\<close>

lemma NotifyAll_accumulates:
  assumes step: "\<And>c old cur. f (fst (Notify c old cur)) = f c @ g (old, cur)"
  shows "f (fst (NotifyAll c evs)) = f c @ concat (map g evs)"
proof (induction evs arbitrary: c)
  case Nil
  then show ?case by simp
next
  case (Cons ev evs)
  obtain old cur where ev: "ev = (old, cur)" by (cases ev)
  show ?case
    unfolding ev NotifyAll_Cons Cons.IH step by simp
qed

lemma NotifyAll_ingresses:
  "delIngresses (fst (NotifyAll c evs)) =
     delIngresses c @ [ing. (Some (Ingress ing), None) \<leftarrow> evs]"
  "updIngresses (fst (NotifyAll c evs)) =
     updIngresses c @ [ing. (Some x, Some (Ingress ing)) \<leftarrow> evs]"
  "addIngresses (fst (NotifyAll c evs)) =
     addIngresses c @ [ing. (None, Some (Ingress ing)) \<leftarrow> evs]"
  by (rule NotifyAll_accumulates,
      auto simp: Notify_def notifyOld_def notifyCur_def Let_def split: option.split obj.split)+

lemma NotifyAll_services:
  "delServices (fst (NotifyAll c evs)) =
     delServices c @ [svc. (Some (Service svc), None) \<leftarrow> evs]"
  "updServices (fst (NotifyAll c evs)) =
     updServices c @ [svc. (Some x, Some (Service svc)) \<leftarrow> evs]"
  "addServices (fst (NotifyAll c evs)) =
     addServices c @ [svc. (None, Some (Service svc)) \<leftarrow> evs]"
  by (rule NotifyAll_accumulates,
      auto simp: Notify_def notifyOld_def notifyCur_def Let_def split: option.split obj.split)+

lemma NotifyAll_secrets:
  "delSecrets (fst (NotifyAll c evs)) =
     delSecrets c @ [s. (Some (Secret s), None) \<leftarrow> evs]"
  "updSecrets (fst (NotifyAll c evs)) =
     updSecrets c @ [s. (Some x, Some (Secret s)) \<leftarrow> evs]"
  "addSecrets (fst (NotifyAll c evs)) =
     addSecrets c @ [s. (None, Some (Secret s)) \<leftarrow> evs]"
  by (rule NotifyAll_accumulates,
      auto simp: Notify_def notifyOld_def notifyCur_def Let_def split: option.split obj.split)+

lemma NotifyAll_observed:
  "newEndpoints (fst (NotifyAll c evs)) =
     newEndpoints c @ [ep. (x, Some (Endpoints ep)) \<leftarrow> evs]"
  "newPods (fst (NotifyAll c evs)) =
     newPods c @ [p. (x, Some (Pod p)) \<leftarrow> evs]"
  by (rule NotifyAll_accumulates,
      auto simp: Notify_def notifyOld_def notifyCur_def Let_def split: option.split obj.split)+

lemma Notify_needResync:
  "needResync (fst (Notify c old cur)) = (needResync c \<or> (old, cur) = (None, None))"
  by (auto simp: Notify_def notifyOld_def notifyCur_def Let_def split: option.split obj.split)

lemma NotifyAll_needResync:
  "needResync (fst (NotifyAll c evs)) = (needResync c \<or> (None, None) \<in> set evs)"
proof (induction evs arbitrary: c)
  case Nil
  then show ?case by simp
next
  case (Cons ev evs)
  obtain old cur where ev: "ev = (old, cur)" by (cases ev)
  show ?case
    unfolding ev NotifyAll_Cons Cons.IH Notify_needResync by auto
qed

lemma Notify_deleteSecret:
  "[k. DeleteSecret k \<leftarrow> snd (Notify c old cur)] =
     [sec_namespace s @ ''/'' @ sec_name s. (Some (Secret s), None) \<leftarrow> [(old, cur)]]"
  by (auto simp: Notify_def notifyOld_def notifyCur_def Let_def split: option.split obj.split)

lemma NotifyAll_deleteSecret:
  "[k. DeleteSecret k \<leftarrow> snd (NotifyAll c evs)] =
     [sec_namespace s @ ''/'' @ sec_name s. (Some (Secret s), None) \<leftarrow> evs]"
proof (induction evs arbitrary: c)
  case Nil
  then show ?case by simp
next
  case (Cons ev evs)
  obtain old cur where ev: "ev = (old, cur)" by (cases ev)
  have "[k. DeleteSecret k \<leftarrow> snd (NotifyAll c ((old, cur) # evs))] =
      [k. DeleteSecret k \<leftarrow> snd (Notify c old cur)] @
      [k. DeleteSecret k \<leftarrow> snd (NotifyAll (fst (Notify c old cur)) evs)]"
    unfolding NotifyAll_Cons by simp
  then show ?case
    unfolding ev Cons.IH Notify_deleteSecret by simp
qed

text \<open>
  C3, as amended: after any sequence of notifications each dirty list is the list before
  the sequence followed, in the order of arrival, by the objects of the notifications of
  its class. With \<open>old\<close> present and \<open>cur\<close> absent, an ingress, a service or a secret goes
  to the delete list of its kind, and for a secret the controller's
  \<^verbatim>\<open>DeleteSecret\<close> is called with its key; with \<open>old\<close> absent and \<open>cur\<close> present
  it goes to the add list, with both present \<open>cur\<close> goes to the update list. Endpoints
  and pods go to their one list whenever \<open>cur\<close> is present, added or updated, and their
  deletion is recorded in no list. Both absent sets the resync flag. No list is
  deduplicated against another.
\<close>

theorem NotifyAll_classifies:
  "delIngresses (fst (NotifyAll c evs)) =
     delIngresses c @ [ing. (Some (Ingress ing), None) \<leftarrow> evs]
   \<and> updIngresses (fst (NotifyAll c evs)) =
     updIngresses c @ [ing. (Some old, Some (Ingress ing)) \<leftarrow> evs]
   \<and> addIngresses (fst (NotifyAll c evs)) =
     addIngresses c @ [ing. (None, Some (Ingress ing)) \<leftarrow> evs]
   \<and> delServices (fst (NotifyAll c evs)) =
     delServices c @ [svc. (Some (Service svc), None) \<leftarrow> evs]
   \<and> updServices (fst (NotifyAll c evs)) =
     updServices c @ [svc. (Some old, Some (Service svc)) \<leftarrow> evs]
   \<and> addServices (fst (NotifyAll c evs)) =
     addServices c @ [svc. (None, Some (Service svc)) \<leftarrow> evs]
   \<and> delSecrets (fst (NotifyAll c evs)) =
     delSecrets c @ [s. (Some (Secret s), None) \<leftarrow> evs]
   \<and> updSecrets (fst (NotifyAll c evs)) =
     updSecrets c @ [s. (Some old, Some (Secret s)) \<leftarrow> evs]
   \<and> addSecrets (fst (NotifyAll c evs)) =
     addSecrets c @ [s. (None, Some (Secret s)) \<leftarrow> evs]
   \<and> newEndpoints (fst (NotifyAll c evs)) =
     newEndpoints c @ [ep. (old, Some (Endpoints ep)) \<leftarrow> evs]
   \<and> newPods (fst (NotifyAll c evs)) =
     newPods c @ [p. (old, Some (Pod p)) \<leftarrow> evs]
   \<and> needResync (fst (NotifyAll c evs)) = (needResync c \<or> (None, None) \<in> set evs)
   \<and> [k. DeleteSecret k \<leftarrow> snd (NotifyAll c evs)] =
     [sec_namespace s @ ''/'' @ sec_name s. (Some (Secret s), None) \<leftarrow> evs]"
  by (intro conjI NotifyAll_ingresses NotifyAll_services NotifyAll_secrets NotifyAll_observed
        NotifyAll_needResync NotifyAll_deleteSecret)

text \<open>
  A secret that is added and then deleted before the next sync is in the add list and
  in the delete list, and its deletion reaches the controller.
\<close>

theorem NotifyAll_classifies_witness:
  "addSecrets (fst (NotifyAll (createCache [] exampleConfig)
       [(None, Some (Secret exampleSecret)), (Some (Secret exampleSecret), None)]))
     = [exampleSecret]
   \<and> delSecrets (fst (NotifyAll (createCache [] exampleConfig)
       [(None, Some (Secret exampleSecret)), (Some (Secret exampleSecret), None)]))
     = [exampleSecret]
   \<and> updSecrets (fst (NotifyAll (createCache [] exampleConfig)
       [(None, Some (Secret exampleSecret)), (Some (Secret exampleSecret), None)]))
     = []
   \<and> [k. DeleteSecret k \<leftarrow> snd (NotifyAll (createCache [] exampleConfig)
       [(None, Some (Secret exampleSecret)), (Some (Secret exampleSecret), None)])]
     = [''default/web-tls'']"
  using NotifyAll_classifies [of "createCache [] exampleConfig"
      "[(None, Some (Secret exampleSecret)), (Some (Secret exampleSecret), None)]"]
  by (simp add: createCache_fields exampleSecret_def)

text \<open>
  C3 as stated fails for the kinds that have no delete list: the deletion of a pod (\<open>old\<close>
  present, \<open>cur\<close> absent) is an event of the window that no dirty list returns.
\<close>

theorem Notify_pod_deletion_counterexample:
  "GetDirtyPods (fst (Notify (createCache [] exampleConfig) (Some (Pod examplePod)) None)) = []
   \<and> GetDirtyEndpoints
       (fst (Notify (createCache [] exampleConfig) (Some (Pod examplePod)) None)) = []
   \<and> GetDirtyIngresses
       (fst (Notify (createCache [] exampleConfig) (Some (Pod examplePod)) None)) = ([], [], [])
   \<and> GetDirtyServices
       (fst (Notify (createCache [] exampleConfig) (Some (Pod examplePod)) None)) = ([], [], [])
   \<and> GetDirtySecrets
       (fst (Notify (createCache [] exampleConfig) (Some (Pod examplePod)) None)) = ([], [], [])
   \<and> NeedResync
       (fst (Notify (createCache [] exampleConfig) (Some (Pod examplePod)) None)) = False"
  by (simp add: Notify_def notifyOld_def notifyCur_def Let_def createCache_fields
        GetDirtyPods_def GetDirtyEndpoints_def GetDirtyIngresses_def GetDirtyServices_def
        GetDirtySecrets_def NeedResync_def)

subsection \<open>The ACME account key\<close>

lemma createCache_acme:
  "acmeSecretKeyName (createCache ns cfg) =
     (if \<not> strings_Contains (AcmeSecretKeyName cfg) (CHR ''/'')
      then (if ns = [] then ''default'' else ns) @ ''/'' @ AcmeSecretKeyName cfg
      else AcmeSecretKeyName cfg)"
  "acmeTokenConfigmapName (createCache ns cfg) =
     (if \<not> strings_Contains (AcmeTokenConfigmapName cfg) (CHR ''/'')
      then (if ns = [] then ''default'' else ns) @ ''/'' @ AcmeTokenConfigmapName cfg
      else AcmeTokenConfigmapName cfg)"
  by (simp_all add: createCache_def Let_def)

lemma example_names:
  "acmeSecretKeyName (createCache [] exampleConfig) = ''default/acme-key''"
  "acmeTokenConfigmapName (createCache [] exampleConfig) = ''default/acme-tokens''"
  by (simp_all add: createCache_acme exampleConfig_def strings_Contains_def)

text \<open>Whatever the store answers, neither function reports it.\<close>

lemma CreateOrUpdate_no_error:
  "fst (CreateOrUpdateSecret cli cl secret) = None"
  "fst (CreateOrUpdateConfigMap cli cl cm) = None"
  by (simp_all add: CreateOrUpdateSecret_def CreateOrUpdateConfigMap_def Let_def
        split: option.split)

lemma GetSecret_absent:
  "SplitMetaNamespaceKey secretName = Inr (namespace, name) \<Longrightarrow>
   secretLister cl (namespace, name) = None \<Longrightarrow>
   GetSecret cl secretName = Inl (ErrNotFound namespace name)"
  by (simp add: GetSecret_def)

lemma GetKey_stored:
  "GetSecret cl (acmeSecretKeyName c) = Inr secret \<Longrightarrow>
   GetKey lib cli c cl =
     (case sec_data secret TLSPrivateKeyKey of
        None \<Rightarrow> (Inl (ErrSecretNoKey (acmeSecretKeyName c)), [])
      | Some pemKey \<Rightarrow>
          (case pemDecode lib pemKey of
             None \<Rightarrow> (Inl (ErrInvalidPem (acmeSecretKeyName c)), [])
           | Some derBlock \<Rightarrow>
               (case parsePKCS1PrivateKey lib (block_bytes derBlock) of
                  None \<Rightarrow> (Inl ErrParseKey, [])
                | Some key \<Rightarrow> (Inr key, []))))"
  by (simp add: GetKey_def)

lemma GetKey_generated:
  assumes "SplitMetaNamespaceKey (acmeSecretKeyName c) = Inr (namespace, name)"
    and "secretLister cl (namespace, name) = None"
    and "generateKey lib 2048 = Some key"
    and "newSecret = \<lparr>sec_namespace = namespace, sec_name = name, sec_type = [],
           sec_data = [TLSPrivateKeyKey \<mapsto> pemEncodeToMemory lib
             \<lparr>block_type = ''RSA PRIVATE KEY'', block_bytes = marshalPKCS1PrivateKey lib key\<rparr>]\<rparr>"
  shows "GetKey lib cli c cl = (Inr key, [CreateSecret newSecret])"
  using assms
  by (simp add: GetKey_def GetSecret_absent CreateOrUpdateSecret_def Let_def)

lemma GetKey_calls:
  assumes "snd (GetKey lib cli c cl) \<noteq> []"
  shows "\<exists>namespace name. SplitMetaNamespaceKey (acmeSecretKeyName c) = Inr (namespace, name)
           \<and> secretLister cl (namespace, name) = None"
  using assms
  by (auto simp: GetKey_def GetSecret_def Let_def split: sum.splits option.splits prod.splits)

text \<open>
  C4, as amended: when the designated secret is in the mirror, \<^verbatim>\<open>GetKey\<close>
  returns the key parsed from its private-key entry and calls nothing; when that secret
  has no private-key entry, or the entry is no PEM block, or the block does not parse, it
  returns an error and calls nothing. When the secret is absent from the mirror it
  generates a key of 2048 bits, submits a secret that holds its PEM encoding with a create
  call, and returns the key when the call succeeds. A call is made only when the secret is
  absent.
\<close>

theorem GetKey_cases:
  "(GetSecret cl (acmeSecretKeyName c) = Inr secret
      \<and> sec_data secret TLSPrivateKeyKey = Some pemKey
      \<and> pemDecode lib pemKey = Some derBlock
      \<and> parsePKCS1PrivateKey lib (block_bytes derBlock) = Some key
      \<longrightarrow> GetKey lib cli c cl = (Inr key, []))
   \<and> (GetSecret cl (acmeSecretKeyName c) = Inr secret
      \<and> sec_data secret TLSPrivateKeyKey = None
      \<longrightarrow> GetKey lib cli c cl = (Inl (ErrSecretNoKey (acmeSecretKeyName c)), []))
   \<and> (GetSecret cl (acmeSecretKeyName c) = Inr secret
      \<and> sec_data secret TLSPrivateKeyKey = Some pemKey
      \<and> pemDecode lib pemKey = None
      \<longrightarrow> GetKey lib cli c cl = (Inl (ErrInvalidPem (acmeSecretKeyName c)), []))
   \<and> (GetSecret cl (acmeSecretKeyName c) = Inr secret
      \<and> sec_data secret TLSPrivateKeyKey = Some pemKey
      \<and> pemDecode lib pemKey = Some derBlock
      \<and> parsePKCS1PrivateKey lib (block_bytes derBlock) = None
      \<longrightarrow> GetKey lib cli c cl = (Inl ErrParseKey, []))
   \<and> (SplitMetaNamespaceKey (acmeSecretKeyName c) = Inr (namespace, name)
      \<and> secretLister cl (namespace, name) = None
      \<and> generateKey lib 2048 = Some key
      \<and> newSecret = \<lparr>sec_namespace = namespace, sec_name = name, sec_type = [],
           sec_data = [TLSPrivateKeyKey \<mapsto> pemEncodeToMemory lib
             \<lparr>block_type = ''RSA PRIVATE KEY'', block_bytes = marshalPKCS1PrivateKey lib key\<rparr>]\<rparr>
      \<longrightarrow> snd (GetKey lib cli c cl) = [CreateSecret newSecret]
          \<and> (cli (CreateSecret newSecret) = None \<longrightarrow> fst (GetKey lib cli c cl) = Inr key))
   \<and> (snd (GetKey lib cli c cl) \<noteq> []
      \<longrightarrow> (\<exists>ns nm. SplitMetaNamespaceKey (acmeSecretKeyName c) = Inr (ns, nm)
             \<and> secretLister cl (ns, nm) = None))"
  using GetKey_generated [of c namespace name cl lib key newSecret cli] GetKey_calls [of lib cli c cl]
  by (auto simp: GetKey_stored)

text \<open>
  C4 as stated fails when the key entry is absent from a secret that exists: nothing is
  generated or written, the call is an error.
\<close>

theorem GetKey_counterexample:
  "GetKey exampleCrypto (\<lambda>call. None) (createCache [] exampleConfig) (secretCluster Map.empty)
     = (Inl (ErrSecretNoKey ''default/acme-key''), [])"
  by (simp add: GetKey_def GetSecret_def example_names SplitMetaNamespaceKey_def
        secretCluster_def TLSPrivateKeyKey_def)


lemma example_GetSecret:
  "GetSecret (secretCluster d) ''default/acme-key'' =
     Inr \<lparr>sec_namespace = ''default'', sec_name = ''acme-key'', sec_type = [], sec_data = d\<rparr>"
  "SplitMetaNamespaceKey ''default/acme-key'' = Inr (''default'', ''acme-key'')"
  "secretLister emptyCluster k = None"
  by (simp_all add: GetSecret_def SplitMetaNamespaceKey_def secretCluster_def emptyCluster_def)

text \<open>A stored key, a stored block that is no key, and an empty mirror.\<close>

theorem GetKey_cases_witness:
  "GetKey exampleCrypto (\<lambda>call. None) (createCache [] exampleConfig)
       (secretCluster [''tls.key'' \<mapsto> ''PEM:key:stored''])
     = (Inr ''stored'', [])
   \<and> GetKey exampleCrypto (\<lambda>call. None) (createCache [] exampleConfig)
       (secretCluster [''tls.key'' \<mapsto> ''PEM:junk''])
     = (Inl ErrParseKey, [])
   \<and> fst (GetKey exampleCrypto (\<lambda>call. None) (createCache [] exampleConfig) emptyCluster)
     = Inr ''fresh''
   \<and> snd (GetKey exampleCrypto (\<lambda>call. None) (createCache [] exampleConfig) emptyCluster)
     = [CreateSecret \<lparr>sec_namespace = ''default'', sec_name = ''acme-key'', sec_type = [],
           sec_data = [''tls.key'' \<mapsto> ''PEM:key:fresh'']\<rparr>]"
  using GetKey_cases [where lib = exampleCrypto and cli = "\<lambda>call. None"
      and c = "createCache [] exampleConfig"
      and cl = "secretCluster [''tls.key'' \<mapsto> ''PEM:key:stored'']"
      and secret = "\<lparr>sec_namespace = ''default'', sec_name = ''acme-key'', sec_type = [],
           sec_data = [''tls.key'' \<mapsto> ''PEM:key:stored'']\<rparr>"
      and pemKey = "''PEM:key:stored''"
      and derBlock = "\<lparr>block_type = ''RSA PRIVATE KEY'', block_bytes = ''key:stored''\<rparr>"
      and key = "''stored''"]
    GetKey_cases [where lib = exampleCrypto and cli = "\<lambda>call. None"
      and c = "createCache [] exampleConfig"
      and cl = "secretCluster [''tls.key'' \<mapsto> ''PEM:junk'']"
      and secret = "\<lparr>sec_namespace = ''default'', sec_name = ''acme-key'', sec_type = [],
           sec_data = [''tls.key'' \<mapsto> ''PEM:junk'']\<rparr>"
      and pemKey = "''PEM:junk''"
      and derBlock = "\<lparr>block_type = ''RSA PRIVATE KEY'', block_bytes = ''junk''\<rparr>"]
    GetKey_cases [where lib = exampleCrypto and cli = "\<lambda>call. None"
      and c = "createCache [] exampleConfig" and cl = emptyCluster
      and namespace = "''default''" and name = "''acme-key''" and key = "''fresh''"
      and newSecret = "\<lparr>sec_namespace = ''default'', sec_name = ''acme-key'', sec_type = [],
           sec_data = [''tls.key'' \<mapsto> ''PEM:key:fresh'']\<rparr>"]
  by (simp add: example_names example_GetSecret exampleCrypto_def TLSPrivateKeyKey_def
        strings_HasPrefix_def)

subsection \<open>The issued certificate\<close>

text \<open>
  C8: \<^verbatim>\<open>GetTLSSecretContent\<close> returns a certificate and key exactly when the
  secret is found, has both entries, both decode as PEM and both parse; it returns nil (and
  has no error result) when the secret cannot be read, when an entry is missing, when a
  PEM block does not decode, and when the certificate or the key does not parse.
\<close>

theorem GetTLSSecretContent_result:
  "(GetTLSSecretContent lib cl secretName = Some t \<longleftrightarrow>
     (\<exists>secret pemCrt pemKey derCrt derKey.
        GetSecret cl secretName = Inr secret
        \<and> sec_data secret TLSCertKey = Some pemCrt
        \<and> sec_data secret TLSPrivateKeyKey = Some pemKey
        \<and> pemDecode lib pemCrt = Some derCrt
        \<and> pemDecode lib pemKey = Some derKey
        \<and> parseCertificate lib (block_bytes derCrt) = Some (Crt t)
        \<and> parsePKCS1PrivateKey lib (block_bytes derKey) = Some (Key t)))
   \<and> (GetSecret cl secretName = Inl err \<longrightarrow> GetTLSSecretContent lib cl secretName = None)
   \<and> (GetSecret cl secretName = Inr secret
        \<and> (sec_data secret TLSCertKey = None \<or> sec_data secret TLSPrivateKeyKey = None)
        \<longrightarrow> GetTLSSecretContent lib cl secretName = None)
   \<and> (GetSecret cl secretName = Inr secret
        \<and> sec_data secret TLSCertKey = Some pemCrt
        \<and> sec_data secret TLSPrivateKeyKey = Some pemKey
        \<and> (pemDecode lib pemCrt = None \<or> pemDecode lib pemKey = None)
        \<longrightarrow> GetTLSSecretContent lib cl secretName = None)
   \<and> (GetSecret cl secretName = Inr secret
        \<and> sec_data secret TLSCertKey = Some pemCrt
        \<and> sec_data secret TLSPrivateKeyKey = Some pemKey
        \<and> pemDecode lib pemCrt = Some derCrt
        \<and> pemDecode lib pemKey = Some derKey
        \<and> (parseCertificate lib (block_bytes derCrt) = None
             \<or> parsePKCS1PrivateKey lib (block_bytes derKey) = None)
        \<longrightarrow> GetTLSSecretContent lib cl secretName = None)"
  by (auto simp: GetTLSSecretContent_def split: sum.splits option.splits)

text \<open>An issued certificate, a key that is no PEM block, and an absent secret.\<close>

theorem GetTLSSecretContent_result_witness:
  "GetTLSSecretContent exampleCrypto
       (secretCluster [''tls.crt'' \<mapsto> ''PEM:crt:web'', ''tls.key'' \<mapsto> ''PEM:key:stored''])
       ''default/acme-key''
     = Some \<lparr>Crt = ''web'', Key = ''stored''\<rparr>
   \<and> GetTLSSecretContent exampleCrypto
       (secretCluster [''tls.crt'' \<mapsto> ''PEM:crt:web'', ''tls.key'' \<mapsto> ''stored''])
       ''default/acme-key''
     = None
   \<and> GetTLSSecretContent exampleCrypto emptyCluster ''default/acme-key'' = None"
proof -
  note r = GetTLSSecretContent_result [where lib = exampleCrypto
      and secretName = "''default/acme-key''"]
  have issued: "GetTLSSecretContent exampleCrypto
       (secretCluster [''tls.crt'' \<mapsto> ''PEM:crt:web'', ''tls.key'' \<mapsto> ''PEM:key:stored''])
       ''default/acme-key''
     = Some \<lparr>Crt = ''web'', Key = ''stored''\<rparr>"
    by (rule iffD2 [OF conjunct1 [OF r]])
      (simp add: example_GetSecret exampleCrypto_def TLSPrivateKeyKey_def TLSCertKey_def
         strings_HasPrefix_def)
  have undecodable: "GetTLSSecretContent exampleCrypto
       (secretCluster [''tls.crt'' \<mapsto> ''PEM:crt:web'', ''tls.key'' \<mapsto> ''stored''])
       ''default/acme-key''
     = None"
    using r [where cl = "secretCluster [''tls.crt'' \<mapsto> ''PEM:crt:web'', ''tls.key'' \<mapsto> ''stored'']"
      and secret = "\<lparr>sec_namespace = ''default'', sec_name = ''acme-key'', sec_type = [],
           sec_data = [''tls.crt'' \<mapsto> ''PEM:crt:web'', ''tls.key'' \<mapsto> ''stored'']\<rparr>"
      and pemCrt = "''PEM:crt:web''" and pemKey = "''stored''"
      and t = "\<lparr>Crt = ''web'', Key = ''stored''\<rparr>" and err = ErrParseKey
      and derCrt = "\<lparr>block_type = [], block_bytes = []\<rparr>"
      and derKey = "\<lparr>block_type = [], block_bytes = []\<rparr>"]
    by (simp add: example_GetSecret exampleCrypto_def TLSPrivateKeyKey_def TLSCertKey_def
         strings_HasPrefix_def)
  have absent: "GetTLSSecretContent exampleCrypto emptyCluster ''default/acme-key'' = None"
    by (rule mp [OF conjunct1 [OF conjunct2 [OF r]]])
      (simp add: GetSecret_absent example_GetSecret)
  from issued undecodable absent show ?thesis by simp
qed

subsection \<open>The ACME token store\<close>

lemma strings_prefix_roundtrip:
  "strings_HasPrefix (p @ t) p"
  "strings_TrimPrefix (p @ t) p = t"
  by (simp_all add: strings_HasPrefix_def strings_TrimPrefix_def)

lemma dataLookup_map:
  "dataLookup d = (case d of None \<Rightarrow> Map.empty | Some m \<Rightarrow> m)"
  by (rule ext) (simp add: dataLookup_def split: option.split)

lemma GetToken_mirrored:
  "SplitMetaNamespaceKey (acmeTokenConfigmapName c) = Inr (namespace, name) \<Longrightarrow>
   configMapLister cl (namespace, name) = Some config \<Longrightarrow>
   GetToken c cl domain uri =
     (case dataLookup (cm_data config) domain of
        None \<Rightarrow> []
      | Some data \<Rightarrow>
          if strings_HasPrefix data (uri @ ''='') then strings_TrimPrefix data (uri @ ''='') else [])"
  by (simp add: GetToken_def GetConfigMap_def Let_def split: option.split)

lemma GetToken_absent:
  "GetConfigMap cl (acmeTokenConfigmapName c) = Inl err \<Longrightarrow> GetToken c cl domain uri = []"
  by (simp add: GetToken_def)

text \<open>The mirrored object after \<^verbatim>\<open>SetToken\<close>: one entry is set or removed.\<close>

lemma SetToken_mirror:
  assumes "SplitMetaNamespaceKey (acmeTokenConfigmapName c) = Inr (namespace, name)"
    and "configMapLister cl (namespace, name) = Some config"
  shows "configMapLister (fst (snd (SetToken cli c cl domain uri token))) (namespace, name) =
     Some (config\<lparr>cm_data := Some
        (if token \<noteq> []
         then (dataLookup (cm_data config))(domain \<mapsto> uri @ ''='' @ token)
         else (dataLookup (cm_data config))(domain := None))\<rparr>)"
  using assms by (simp add: SetToken_def Let_def dataLookup_map split: prod.split)

text \<open>With no mirrored object the mirror stays as it is and a new object is submitted.\<close>

lemma SetToken_not_mirrored:
  assumes "SplitMetaNamespaceKey (acmeTokenConfigmapName c) = Inr (namespace, name)"
    and "configMapLister cl (namespace, name) = None"
  shows "snd (SetToken cli c cl domain uri token) =
     (cl, [CreateConfigMap \<lparr>cm_namespace = namespace, cm_name = name,
                 cm_data = Some (if token \<noteq> [] then [domain \<mapsto> uri @ ''='' @ token]
                                 else Map.empty)\<rparr>])"
  using assms by (simp add: SetToken_def CreateOrUpdateConfigMap_def Let_def)

lemma SetToken_bad_name:
  "SplitMetaNamespaceKey (acmeTokenConfigmapName c) = Inl err \<Longrightarrow>
   SetToken cli c cl domain uri token = (Some err, cl, [])"
  by (simp add: SetToken_def)

lemma SetToken_then_GetToken_mirrored:
  assumes "SplitMetaNamespaceKey (acmeTokenConfigmapName c) = Inr (namespace, name)"
    and "configMapLister cl (namespace, name) = Some config"
    and "token \<noteq> []"
  shows "GetToken c (fst (snd (SetToken cli c cl domain uri token))) domain uri = token"
  using assms SetToken_mirror [OF assms(1,2), of cli domain uri token]
    strings_prefix_roundtrip [of "uri @ ''=''" token]
  by (simp add: GetToken_mirrored [OF assms(1)] dataLookup_def)

lemma SetToken_empty_GetToken:
  "GetToken c (fst (snd (SetToken cli c cl domain uri []))) domain uri' = []"
proof (cases "SplitMetaNamespaceKey (acmeTokenConfigmapName c)")
  case (Inl err)
  then show ?thesis
    by (simp add: SetToken_bad_name GetToken_def GetConfigMap_def)
next
  case (Inr key)
  obtain namespace name where key: "key = (namespace, name)" by (cases key)
  note split = Inr [unfolded key]
  show ?thesis
  proof (cases "configMapLister cl (namespace, name)")
    case None
    then show ?thesis
      using split by (simp add: SetToken_not_mirrored GetToken_def GetConfigMap_def)
  next
    case (Some config)
    show ?thesis
      using SetToken_mirror [OF split Some, of cli domain uri "[]"]
      by (simp add: GetToken_mirrored [OF split] dataLookup_def)
  qed
qed

lemma GetToken_after_mirroring:
  assumes "SplitMetaNamespaceKey (acmeTokenConfigmapName c) = Inr (namespace, name)"
    and "token \<noteq> []"
  shows "GetToken c
     (cl\<lparr>configMapLister := (configMapLister cl)((namespace, name) \<mapsto>
        \<lparr>cm_namespace = namespace, cm_name = name,
         cm_data = Some [domain \<mapsto> uri @ ''='' @ token]\<rparr>)\<rparr>) domain uri = token"
  using strings_prefix_roundtrip [of "uri @ ''=''" token]
  by (simp add: GetToken_mirrored [OF assms(1)] dataLookup_def)

text \<open>
  C6, as amended: when the token config map is in the mirror, \<^verbatim>\<open>SetToken\<close> with
  a non-empty token sets the entry of the domain in the mirrored object to \<open>uri=token\<close>,
  and the \<^verbatim>\<open>GetToken\<close> that follows returns the token. When it is not in the
  mirror, \<^verbatim>\<open>SetToken\<close> submits a create call for an object that maps the domain
  to \<open>uri=token\<close> and leaves the mirror as it is: \<^verbatim>\<open>GetToken\<close> returns the empty
  string until the mirror holds that object, and the token from then on.
  \<^verbatim>\<open>SetToken\<close> with an empty token removes the entry of the domain from the
  mirrored object and leaves its other entries, or submits an object with no entry when
  none is mirrored; the \<^verbatim>\<open>GetToken\<close> that follows returns the empty string for
  every URI. \<^verbatim>\<open>GetToken\<close> has no error result: it is empty when the object cannot
  be read, when the domain has no entry, and when the entry does not start with \<open>uri=\<close>.
\<close>

theorem SetToken_GetToken:
  "(SplitMetaNamespaceKey (acmeTokenConfigmapName c) = Inr (namespace, name)
      \<and> configMapLister cl (namespace, name) = Some config \<and> token \<noteq> []
      \<longrightarrow> configMapLister (fst (snd (SetToken cli c cl domain uri token))) (namespace, name) =
            Some (config\<lparr>cm_data :=
              Some ((dataLookup (cm_data config))(domain \<mapsto> uri @ ''='' @ token))\<rparr>)
          \<and> GetToken c (fst (snd (SetToken cli c cl domain uri token))) domain uri = token)
   \<and> (SplitMetaNamespaceKey (acmeTokenConfigmapName c) = Inr (namespace, name)
      \<and> configMapLister cl (namespace, name) = None \<and> token \<noteq> []
      \<longrightarrow> snd (SetToken cli c cl domain uri token) =
            (cl, [CreateConfigMap \<lparr>cm_namespace = namespace, cm_name = name,
                    cm_data = Some [domain \<mapsto> uri @ ''='' @ token]\<rparr>])
          \<and> GetToken c cl domain uri = []
          \<and> GetToken c
               (cl\<lparr>configMapLister := (configMapLister cl)((namespace, name) \<mapsto>
                  \<lparr>cm_namespace = namespace, cm_name = name,
                   cm_data = Some [domain \<mapsto> uri @ ''='' @ token]\<rparr>)\<rparr>) domain uri = token)
   \<and> (SplitMetaNamespaceKey (acmeTokenConfigmapName c) = Inr (namespace, name)
      \<and> configMapLister cl (namespace, name) = Some config
      \<longrightarrow> configMapLister (fst (snd (SetToken cli c cl domain uri []))) (namespace, name) =
            Some (config\<lparr>cm_data := Some ((dataLookup (cm_data config))(domain := None))\<rparr>))
   \<and> (SplitMetaNamespaceKey (acmeTokenConfigmapName c) = Inr (namespace, name)
      \<and> configMapLister cl (namespace, name) = None
      \<longrightarrow> snd (SetToken cli c cl domain uri []) =
            (cl, [CreateConfigMap \<lparr>cm_namespace = namespace, cm_name = name,
                    cm_data = Some Map.empty\<rparr>]))
   \<and> GetToken c (fst (snd (SetToken cli c cl domain uri []))) domain uri' = []
   \<and> (GetConfigMap cl (acmeTokenConfigmapName c) = Inl err \<longrightarrow> GetToken c cl domain uri = [])
   \<and> (GetConfigMap cl (acmeTokenConfigmapName c) = Inr config
      \<and> dataLookup (cm_data config) domain = None \<longrightarrow> GetToken c cl domain uri = [])
   \<and> (GetConfigMap cl (acmeTokenConfigmapName c) = Inr config
      \<and> dataLookup (cm_data config) domain = Some data
      \<and> \<not> strings_HasPrefix data (uri @ ''='') \<longrightarrow> GetToken c cl domain uri = [])"
proof -
  have stored: "SplitMetaNamespaceKey (acmeTokenConfigmapName c) = Inr (namespace, name)
      \<and> configMapLister cl (namespace, name) = Some config \<and> token \<noteq> []
      \<longrightarrow> configMapLister (fst (snd (SetToken cli c cl domain uri token))) (namespace, name) =
            Some (config\<lparr>cm_data :=
              Some ((dataLookup (cm_data config))(domain \<mapsto> uri @ ''='' @ token))\<rparr>)
          \<and> GetToken c (fst (snd (SetToken cli c cl domain uri token))) domain uri = token"
    by (simp add: SetToken_then_GetToken_mirrored SetToken_mirror)
  have created: "SplitMetaNamespaceKey (acmeTokenConfigmapName c) = Inr (namespace, name)
      \<and> configMapLister cl (namespace, name) = None \<and> token \<noteq> []
      \<longrightarrow> snd (SetToken cli c cl domain uri token) =
            (cl, [CreateConfigMap \<lparr>cm_namespace = namespace, cm_name = name,
                    cm_data = Some [domain \<mapsto> uri @ ''='' @ token]\<rparr>])
          \<and> GetToken c cl domain uri = []
          \<and> GetToken c
               (cl\<lparr>configMapLister := (configMapLister cl)((namespace, name) \<mapsto>
                  \<lparr>cm_namespace = namespace, cm_name = name,
                   cm_data = Some [domain \<mapsto> uri @ ''='' @ token]\<rparr>)\<rparr>) domain uri = token"
  proof (intro impI conjI; elim conjE)
    assume a: "SplitMetaNamespaceKey (acmeTokenConfigmapName c) = Inr (namespace, name)"
      "configMapLister cl (namespace, name) = None" "token \<noteq> []"
    show "snd (SetToken cli c cl domain uri token) =
            (cl, [CreateConfigMap \<lparr>cm_namespace = namespace, cm_name = name,
                    cm_data = Some [domain \<mapsto> uri @ ''='' @ token]\<rparr>])"
      using a by (simp add: SetToken_not_mirrored)
    show "GetToken c cl domain uri = []"
      using a by (simp add: GetToken_def GetConfigMap_def)
    show "GetToken c
               (cl\<lparr>configMapLister := (configMapLister cl)((namespace, name) \<mapsto>
                  \<lparr>cm_namespace = namespace, cm_name = name,
                   cm_data = Some [domain \<mapsto> uri @ ''='' @ token]\<rparr>)\<rparr>) domain uri = token"
      using a(1,3) by (rule GetToken_after_mirroring)
  qed
  have removed: "SplitMetaNamespaceKey (acmeTokenConfigmapName c) = Inr (namespace, name)
      \<and> configMapLister cl (namespace, name) = Some config
      \<longrightarrow> configMapLister (fst (snd (SetToken cli c cl domain uri []))) (namespace, name) =
            Some (config\<lparr>cm_data := Some ((dataLookup (cm_data config))(domain := None))\<rparr>)"
    by (simp add: SetToken_mirror)
  have emptied: "SplitMetaNamespaceKey (acmeTokenConfigmapName c) = Inr (namespace, name)
      \<and> configMapLister cl (namespace, name) = None
      \<longrightarrow> snd (SetToken cli c cl domain uri []) =
            (cl, [CreateConfigMap \<lparr>cm_namespace = namespace, cm_name = name,
                    cm_data = Some Map.empty\<rparr>])"
    by (simp add: SetToken_not_mirrored)
  have unavailable: "GetToken c (fst (snd (SetToken cli c cl domain uri []))) domain uri' = []"
    by (rule SetToken_empty_GetToken)
  have failures:
    "GetConfigMap cl (acmeTokenConfigmapName c) = Inl err \<longrightarrow> GetToken c cl domain uri = []"
    "GetConfigMap cl (acmeTokenConfigmapName c) = Inr config
      \<and> dataLookup (cm_data config) domain = None \<longrightarrow> GetToken c cl domain uri = []"
    "GetConfigMap cl (acmeTokenConfigmapName c) = Inr config
      \<and> dataLookup (cm_data config) domain = Some data
      \<and> \<not> strings_HasPrefix data (uri @ ''='') \<longrightarrow> GetToken c cl domain uri = []"
    by (simp_all add: GetToken_def Let_def)
  from stored created removed emptied unavailable failures show ?thesis by blast
qed

lemma example_token_names:
  "acmeTokenConfigmapName (createCache [] exampleConfig) = ''default/acme-tokens''"
  "SplitMetaNamespaceKey ''default/acme-tokens'' = Inr (''default'', ''acme-tokens'')"
  by (simp_all add: createCache_acme exampleConfig_def strings_Contains_def
        SplitMetaNamespaceKey_def)

lemma example_token_cluster:
  "configMapLister (tokenCluster d) (''default'', ''acme-tokens'') =
     Some \<lparr>cm_namespace = ''default'', cm_name = ''acme-tokens'', cm_data = d\<rparr>"
  "GetConfigMap (tokenCluster d) ''default/acme-tokens'' =
     Inr \<lparr>cm_namespace = ''default'', cm_name = ''acme-tokens'', cm_data = d\<rparr>"
  by (simp_all add: tokenCluster_def GetConfigMap_def example_token_names)

text \<open>
  A mirrored config map with nil data, one that holds the token to remove beside the
  token of another domain, and one whose entry is for another URI.
\<close>

theorem SetToken_GetToken_witness:
  "GetToken (createCache [] exampleConfig)
       (fst (snd (SetToken (\<lambda>call. None) (createCache [] exampleConfig) (tokenCluster None)
          ''example.com'' ''/acme/x'' ''tok1''))) ''example.com'' ''/acme/x'' = ''tok1''
   \<and> configMapLister
       (fst (snd (SetToken (\<lambda>call. None) (createCache [] exampleConfig)
          (tokenCluster (Some [''example.com'' \<mapsto> ''/acme/x=tok1'', ''example.org'' \<mapsto> ''/acme/y=tok2'']))
          ''example.com'' ''/acme/x'' []))) (''default'', ''acme-tokens'')
     = Some \<lparr>cm_namespace = ''default'', cm_name = ''acme-tokens'',
          cm_data = Some [''example.org'' \<mapsto> ''/acme/y=tok2'']\<rparr>
   \<and> GetToken (createCache [] exampleConfig)
       (fst (snd (SetToken (\<lambda>call. None) (createCache [] exampleConfig)
          (tokenCluster (Some [''example.com'' \<mapsto> ''/acme/x=tok1'', ''example.org'' \<mapsto> ''/acme/y=tok2'']))
          ''example.com'' ''/acme/x'' []))) ''example.com'' ''/acme/x'' = []
   \<and> GetToken (createCache [] exampleConfig)
       (tokenCluster (Some [''example.com'' \<mapsto> ''/acme/y=tok1'']))
       ''example.com'' ''/acme/x'' = []"
proof -
  note r = SetToken_GetToken [where c = "createCache [] exampleConfig"
      and cli = "\<lambda>call. None" and domain = "''example.com''" and uri = "''/acme/x''"]
  have stored: "GetToken (createCache [] exampleConfig)
       (fst (snd (SetToken (\<lambda>call. None) (createCache [] exampleConfig) (tokenCluster None)
          ''example.com'' ''/acme/x'' ''tok1''))) ''example.com'' ''/acme/x'' = ''tok1''"
    by (rule conjunct2 [OF mp [OF conjunct1 [OF r [where namespace = "''default''"
         and name = "''acme-tokens''"]]]])
      (simp add: example_token_names example_token_cluster)
  have "configMapLister
       (fst (snd (SetToken (\<lambda>call. None) (createCache [] exampleConfig)
          (tokenCluster (Some [''example.com'' \<mapsto> ''/acme/x=tok1'', ''example.org'' \<mapsto> ''/acme/y=tok2'']))
          ''example.com'' ''/acme/x'' []))) (''default'', ''acme-tokens'')
     = Some (\<lparr>cm_namespace = ''default'', cm_name = ''acme-tokens'',
          cm_data = Some [''example.com'' \<mapsto> ''/acme/x=tok1'', ''example.org'' \<mapsto> ''/acme/y=tok2'']\<rparr>
        \<lparr>cm_data := Some ((dataLookup
          (cm_data \<lparr>cm_namespace = ''default'', cm_name = ''acme-tokens'',
            cm_data = Some [''example.com'' \<mapsto> ''/acme/x=tok1'', ''example.org'' \<mapsto> ''/acme/y=tok2'']\<rparr>))
          (''example.com'' := None))\<rparr>)"
    by (rule mp [OF conjunct1 [OF conjunct2 [OF conjunct2 [OF r]]]])
      (simp add: example_token_names example_token_cluster)
  moreover have "(dataLookup (Some [''example.com'' \<mapsto> ''/acme/x=tok1'', ''example.org'' \<mapsto> ''/acme/y=tok2'']))
          (''example.com'' := None) = [''example.org'' \<mapsto> ''/acme/y=tok2'']"
    by (rule ext) (simp add: dataLookup_def)
  ultimately have entry: "configMapLister
       (fst (snd (SetToken (\<lambda>call. None) (createCache [] exampleConfig)
          (tokenCluster (Some [''example.com'' \<mapsto> ''/acme/x=tok1'', ''example.org'' \<mapsto> ''/acme/y=tok2'']))
          ''example.com'' ''/acme/x'' []))) (''default'', ''acme-tokens'')
     = Some \<lparr>cm_namespace = ''default'', cm_name = ''acme-tokens'',
          cm_data = Some [''example.org'' \<mapsto> ''/acme/y=tok2'']\<rparr>"
    by simp
  have removed: "GetToken (createCache [] exampleConfig)
       (fst (snd (SetToken (\<lambda>call. None) (createCache [] exampleConfig)
          (tokenCluster (Some [''example.com'' \<mapsto> ''/acme/x=tok1'', ''example.org'' \<mapsto> ''/acme/y=tok2'']))
          ''example.com'' ''/acme/x'' []))) ''example.com'' ''/acme/x'' = []"
    by (rule conjunct1 [OF conjunct2 [OF conjunct2 [OF conjunct2 [OF conjunct2 [OF r]]]]])
  have mismatch: "GetToken (createCache [] exampleConfig)
       (tokenCluster (Some [''example.com'' \<mapsto> ''/acme/y=tok1'']))
       ''example.com'' ''/acme/x'' = []"
    by (rule mp [OF conjunct2 [OF conjunct2 [OF conjunct2 [OF conjunct2 [OF conjunct2
          [OF conjunct2 [OF conjunct2 [OF r
         [where data = "''/acme/y=tok1''"
           and cl = "tokenCluster (Some [''example.com'' \<mapsto> ''/acme/y=tok1''])"
           and config = "\<lparr>cm_namespace = ''default'', cm_name = ''acme-tokens'',
             cm_data = Some [''example.com'' \<mapsto> ''/acme/y=tok1'']\<rparr>"]]]]]]]]])
      (simp add: example_token_names example_token_cluster dataLookup_def strings_HasPrefix_def)
  from stored entry removed mismatch show ?thesis by simp
qed

text \<open>
  C6 as stated fails when the mirror has no token config map: \<^verbatim>\<open>SetToken\<close>
  returns no error and has made a create call, and the \<^verbatim>\<open>GetToken\<close> that follows
  reads the mirror, which has no object yet.
\<close>

theorem SetToken_GetToken_counterexample:
  "fst (SetToken (\<lambda>call. None) (createCache [] exampleConfig) emptyCluster
          ''example.com'' ''/acme/x'' ''tok1'') = None
   \<and> snd (snd (SetToken (\<lambda>call. None) (createCache [] exampleConfig) emptyCluster
          ''example.com'' ''/acme/x'' ''tok1''))
     = [CreateConfigMap \<lparr>cm_namespace = ''default'', cm_name = ''acme-tokens'',
          cm_data = Some [''example.com'' \<mapsto> ''/acme/x=tok1'']\<rparr>]
   \<and> GetToken (createCache [] exampleConfig)
       (fst (snd (SetToken (\<lambda>call. None) (createCache [] exampleConfig) emptyCluster
          ''example.com'' ''/acme/x'' ''tok1''))) ''example.com'' ''/acme/x'' = []
   \<and> GetToken (createCache [] exampleConfig)
       (fst (snd (SetToken (\<lambda>call. None) (createCache [] exampleConfig) emptyCluster
          ''example.com'' ''/acme/x'' ''tok1''))) ''example.com'' ''/acme/x'' \<noteq> ''tok1''"
  by (simp add: SetToken_def GetToken_def GetConfigMap_def CreateOrUpdateConfigMap_def Let_def
        example_token_names emptyCluster_def)

subsection \<open>Terminating pods\<close>

lemma selectorMatches_iff:
  "selectorMatches sel labels \<longleftrightarrow> (\<forall>(k, v) \<in> set sel. labels k = Some v)"
  by (induction sel labels rule: selectorMatches.induct) (auto split: option.splits)

lemma isTerminatingPod_iff:
  "isTerminatingPod svc p \<longleftrightarrow>
     pod_namespace p = svc_namespace svc
     \<and> (\<forall>(k, v) \<in> set (svc_selector svc). pod_labels p k = Some v)
     \<and> pod_deletionTimestamp p \<noteq> None \<and> pod_reason p \<noteq> ''NodeLost'' \<and> pod_podIP p \<noteq> []"
  by (auto simp: isTerminatingPod_def selectorMatches_iff)

lemma GetTerminatingPods_filter:
  assumes "labelsParse (strings_Join (map (\<lambda>(k, v). k @ ''='' @ v) (svc_selector svc)) '','')
             = Inr l"
    and "\<forall>labels. (\<forall>(k, v) \<in> set (svc_selector svc). labels k = Some v) \<longrightarrow> l labels"
  shows "GetTerminatingPods labelsParse cl svc =
     Inr [p \<leftarrow> podLister cl.
            pod_namespace p = svc_namespace svc
            \<and> (\<forall>(k, v) \<in> set (svc_selector svc). pod_labels p k = Some v)
            \<and> pod_deletionTimestamp p \<noteq> None \<and> pod_reason p \<noteq> ''NodeLost''
            \<and> pod_podIP p \<noteq> []]"
proof -
  have listed: "filter (isTerminatingPod svc)
          (filter (\<lambda>p. pod_namespace p = svc_namespace svc \<and> l (pod_labels p)) (podLister cl))
        = filter (isTerminatingPod svc) (podLister cl)"
    unfolding filter_filter
    by (rule filter_cong) (use assms(2) in \<open>auto simp: isTerminatingPod_iff\<close>)
  have terminating: "filter (isTerminatingPod svc) (podLister cl) =
     [p \<leftarrow> podLister cl.
            pod_namespace p = svc_namespace svc
            \<and> (\<forall>(k, v) \<in> set (svc_selector svc). pod_labels p k = Some v)
            \<and> pod_deletionTimestamp p \<noteq> None \<and> pod_reason p \<noteq> ''NodeLost''
            \<and> pod_podIP p \<noteq> []]"
    by (rule filter_cong) (simp_all add: isTerminatingPod_iff)
  have "GetTerminatingPods labelsParse cl svc =
     Inr (filter (isTerminatingPod svc)
          (filter (\<lambda>p. pod_namespace p = svc_namespace svc \<and> l (pod_labels p)) (podLister cl)))"
    using assms(1)
    by (simp add: GetTerminatingPods_def podLister_List_def Let_def del: filter_filter)
  then show ?thesis
    unfolding listed terminating .
qed

lemma GetTerminatingPods_error:
  "labelsParse (strings_Join (map (\<lambda>(k, v). k @ ''='' @ v) (svc_selector svc)) '','') = Inl err
   \<Longrightarrow> GetTerminatingPods labelsParse cl svc = Inl err"
  by (simp add: GetTerminatingPods_def Let_def)





text \<open>
  C10: for a service with an empty selector map the string given to
  \<^verbatim>\<open>labels.Parse\<close> is empty; when the empty string parses to a selector that
  matches every label set, the result is all terminating pods of the service's namespace,
  whatever their labels: the loop of \<^verbatim>\<open>isTerminatingPod\<close> over the selector
  passes for every pod.
\<close>

theorem GetTerminatingPods_empty_selector:
  "(svc_selector svc = [] \<and> labelsParse [] = Inr l \<and> (\<forall>labels. l labels)
      \<longrightarrow> GetTerminatingPods labelsParse cl svc =
            Inr [p \<leftarrow> podLister cl.
                   pod_namespace p = svc_namespace svc
                   \<and> pod_deletionTimestamp p \<noteq> None \<and> pod_reason p \<noteq> ''NodeLost''
                   \<and> pod_podIP p \<noteq> []])
   \<and> (svc_selector svc = [] \<longrightarrow> selectorMatches (svc_selector svc) labels)"
  using GetTerminatingPods_filter [of labelsParse svc l cl]
  by auto

text \<open>The same pods and no selector: the pod with other labels is returned as well.\<close>

theorem GetTerminatingPods_empty_selector_witness:
  "GetTerminatingPods exampleParse podCluster (exampleService\<lparr>svc_selector := []\<rparr>) =
     Inr [examplePod, examplePod\<lparr>pod_name := ''db-1'', pod_labels := [''app'' \<mapsto> ''db'']\<rparr>]"
proof -
  have "GetTerminatingPods exampleParse podCluster (exampleService\<lparr>svc_selector := []\<rparr>) =
      Inr [p \<leftarrow> podLister podCluster.
                   pod_namespace p = svc_namespace (exampleService\<lparr>svc_selector := []\<rparr>)
                   \<and> pod_deletionTimestamp p \<noteq> None \<and> pod_reason p \<noteq> ''NodeLost''
                   \<and> pod_podIP p \<noteq> []]"
    by (rule mp [OF conjunct1 [OF GetTerminatingPods_empty_selector
          [where l = "\<lambda>labels. True"]]])
      (simp add: exampleParse_def)
  then show ?thesis
    by (simp add: podCluster_def exampleService_def examplePod_def)
qed

end
